theory Spec2Isabelle
  imports Main "HOL-Library.List_Lexorder" "HOL-Library.Char_ord"
begin

section \<open>Go values used by the OpenFaaS client\<close>

text \<open>
  The client of \<^verbatim>\<open>package openfaas\<close> has five methods: \<^verbatim>\<open>InvokeSync\<close>,
  \<^verbatim>\<open>InvokeAsync\<close>, \<^verbatim>\<open>HasNamespaceSupport\<close>, \<^verbatim>\<open>GetNamespaces\<close> and
  \<^verbatim>\<open>GetFunctions\<close>. Go strings and byte slices are byte sequences, here \<open>string\<close>;
  a nil slice and an empty slice are both \<open>[]\<close>.
\<close>

type_synonym bytes = string

text \<open>
  Go's \<^verbatim>\<open>error\<close> values, by the constructor that made them: \<^verbatim>\<open>errors.New(msg)\<close> and
  \<^verbatim>\<open>errors.Wrap(cause, msg)\<close> of pkg/errors (\<^verbatim>\<open>Wrapf\<close> is \<^verbatim>\<open>Wrap\<close> on the formatted
  message), and the two errors of encoding/json.
\<close>

datatype error =
    errors_New string
  | errors_Wrap error string
  | json_SyntaxError
  | json_UnmarshalTypeError

text \<open>
  What a method call does: it panics (a nil pointer dereference), or it returns
  Go's pair of a value and an error, the error being nil (\<open>None\<close>) or not.
\<close>

datatype 'a returned = Panic | Return 'a "error option"

text \<open>\<^verbatim>\<open>fmt.Sprintf("%d", n)\<close>: the decimal digits, with a sign for a negative number.\<close>

fun digits_nat :: "nat \<Rightarrow> string" where
  "digits_nat n =
     (if n < 10 then [''0123456789'' ! n]
      else digits_nat (n div 10) @ [''0123456789'' ! (n mod 10)])"

definition fmt_d :: "int \<Rightarrow> string" where
  "fmt_d i = (if i < 0 then CHR ''-'' # digits_nat (nat (- i)) else digits_nat (nat i))"

subsection \<open>The structs\<close>

record BasicAuthCredentials =
  User :: string
  Password :: string

text \<open>\<^verbatim>\<open>types2.OpenFaaSInvocation\<close>: \<^verbatim>\<open>Message\<close> is a \<^verbatim>\<open>*[]byte\<close> that may be nil.\<close>

record OpenFaaSInvocation =
  ContentType :: string
  ContentEncoding :: string
  Message :: "bytes option"

text \<open>
  \<^verbatim>\<open>url.URL\<close>, as far as the client reads or writes it: \<open>RawQuery\<close> is the text after the
  first \<^verbatim>\<open>?\<close>, \<open>RawFragment\<close> the text after the first \<^verbatim>\<open>#\<close>, and \<open>Rest\<close> what stands
  before both (scheme, authority and path, not split further).
\<close>

record URL =
  Rest :: string
  RawQuery :: string
  RawFragment :: string

text \<open>
  \<^verbatim>\<open>http.Request\<close>. \<^verbatim>\<open>SetBasicAuth\<close> writes the Authorization header from the user and
  the password; the record keeps that pair in \<open>BasicAuth\<close>, not its base64 text.
\<close>

record 'ctx Request =
  ctx :: 'ctx
  Method :: string
  URL :: URL
  Header :: "string \<rightharpoonup> string"
  BasicAuth :: "(string \<times> string) option"
  Body_req :: "bytes option"

text \<open>
  \<^verbatim>\<open>http.Response\<close>: \<open>Body\<close> is the content that the body stream delivers until it
  ends or fails.
  \<^verbatim>\<open>http.Client.Do\<close> returns a non-nil \<^verbatim>\<open>Body\<close> whenever it returns no error, so the
  source's guards \<^verbatim>\<open>res.Body != nil\<close> always pass.
\<close>

record Response =
  StatusCode :: int
  Body :: bytes

text \<open>
  The state of a response's body stream (an \<^verbatim>\<open>io.ReadCloser\<close>): the bytes not read yet,
  and whether \<^verbatim>\<open>Close\<close> was called.
\<close>

record ReadCloser =
  unread :: bytes
  closed :: bool

definition body_stream :: "Response \<Rightarrow> ReadCloser" where
  "body_stream res = \<lparr>unread = Body res, closed = False\<rparr>"

text \<open>
  \<^verbatim>\<open>ioutil.ReadAll\<close> reads to the end of the stream; the source discards its error.
\<close>

definition ioutil_ReadAll :: "ReadCloser \<Rightarrow> bytes \<times> ReadCloser" where
  "ioutil_ReadAll s = (unread s, s\<lparr>unread := []\<rparr>)"

definition Close :: "ReadCloser \<Rightarrow> ReadCloser" where
  "Close s = s\<lparr>closed := True\<rparr>"

text \<open>
  \<^verbatim>\<open>Client\<close>: \<open>client\<close> is what \<^verbatim>\<open>c.client.Do\<close> answers to a request, a transport error
  or a response; \<open>credentials\<close> is a pointer that may be nil.
\<close>

record 'ctx Client =
  client :: "'ctx Request \<Rightarrow> error + Response"
  credentials :: "BasicAuthCredentials option"
  url :: string

subsection \<open>JSON documents\<close>

datatype json =
    JNull
  | JBool bool
  | JNumber string
  | JString string
  | JArray "json list"
  | JObject "(string \<times> json) list"

text \<open>
  The parts of the Go libraries that the source calls and that are taken as given:
  whether \<^verbatim>\<open>url.Parse\<close> accepts a string, the JSON document that the scanner of
  encoding/json reads from a byte sequence (\<open>None\<close> is a syntax error), and
  \<^verbatim>\<open>json.Unmarshal\<close> into a \<^verbatim>\<open>[]types.FunctionStatus\<close> (the slice it leaves and its error).
\<close>

record 'fs Runtime =
  url_accepts :: "string \<Rightarrow> bool"
  json_scan :: "bytes \<Rightarrow> json option"
  Unmarshal_FunctionStatus :: "bytes \<Rightarrow> 'fs list \<times> error option"

section \<open>net/url\<close>

text \<open>\<^verbatim>\<open>strings.Cut(s, sep)\<close> for a one-byte separator: before, after, found.\<close>

definition Cut :: "string \<Rightarrow> char \<Rightarrow> string \<times> string \<times> bool" where
  "Cut s sep =
     (takeWhile (\<lambda>c. c \<noteq> sep) s, drop 1 (dropWhile (\<lambda>c. c \<noteq> sep) s), sep \<in> set s)"

text \<open>
  \<^verbatim>\<open>url.Parse\<close>: the fragment is cut off at the first \<^verbatim>\<open>#\<close>, then the query at the first
  \<^verbatim>\<open>?\<close> of what is left.
\<close>

definition url_split :: "string \<Rightarrow> URL" where
  "url_split rawURL =
     (case Cut rawURL CHR ''#'' of (u, frag, _) \<Rightarrow>
        (case Cut u CHR ''?'' of (rest, query, _) \<Rightarrow>
           \<lparr>Rest = rest, RawQuery = query, RawFragment = frag\<rparr>))"

definition url_Parse :: "'fs Runtime \<Rightarrow> string \<Rightarrow> URL option" where
  "url_Parse rt rawURL = (if url_accepts rt rawURL then Some (url_split rawURL) else None)"

text \<open>
  \<^verbatim>\<open>url.Values\<close> is a \<^verbatim>\<open>map[string][]string\<close>: an association list with each key once.
\<close>

type_synonym Values = "(string \<times> string list) list"

fun Values_Add :: "Values \<Rightarrow> string \<Rightarrow> string \<Rightarrow> Values" where
  "Values_Add [] key v = [(key, [v])]"
| "Values_Add ((k, vs) # m) key v =
     (if k = key then (k, vs @ [v]) # m else (k, vs) # Values_Add m key v)"

fun Values_lookup :: "Values \<Rightarrow> string \<Rightarrow> string list" where
  "Values_lookup [] key = []"
| "Values_lookup ((k, vs) # m) key = (if k = key then vs else Values_lookup m key)"

definition ishex :: "char \<Rightarrow> bool" where
  "ishex c = (c \<in> set ''0123456789abcdefABCDEF'')"

definition unhex :: "char \<Rightarrow> nat" where
  "unhex c =
     (if CHR ''0'' \<le> c \<and> c \<le> CHR ''9'' then of_char c - of_char CHR ''0''
      else if CHR ''a'' \<le> c \<and> c \<le> CHR ''f'' then of_char c - of_char CHR ''a'' + 10
      else if CHR ''A'' \<le> c \<and> c \<le> CHR ''F'' then of_char c - of_char CHR ''A'' + 10
      else 0)"

text \<open>\<^verbatim>\<open>url.QueryUnescape\<close>: \<open>None\<close> for a malformed \<^verbatim>\<open>%\<close> escape.\<close>

fun QueryUnescape :: "string \<Rightarrow> string option" where
  "QueryUnescape [] = Some []"
| "QueryUnescape (c # s) =
     (if c = CHR ''%'' then
        (case s of
           a # b # s' \<Rightarrow>
             (if ishex a \<and> ishex b
              then map_option ((#) (char_of (unhex a * 16 + unhex b))) (QueryUnescape s')
              else None)
         | _ \<Rightarrow> None)
      else if c = CHR ''+'' then map_option ((#) CHR '' '') (QueryUnescape s)
      else map_option ((#) c) (QueryUnescape s))"

text \<open>\<^verbatim>\<open>shouldEscape(c, encodeQueryComponent)\<close>: only the unreserved bytes are kept.\<close>

definition shouldEscape :: "char \<Rightarrow> bool" where
  "shouldEscape c =
     (\<not> ((CHR ''a'' \<le> c \<and> c \<le> CHR ''z'') \<or> (CHR ''A'' \<le> c \<and> c \<le> CHR ''Z'')
         \<or> (CHR ''0'' \<le> c \<and> c \<le> CHR ''9'')
         \<or> c \<in> set ''-_.~''))"

definition upperhex :: string where
  "upperhex = ''0123456789ABCDEF''"

fun QueryEscape :: "string \<Rightarrow> string" where
  "QueryEscape [] = []"
| "QueryEscape (c # s) =
     (if shouldEscape c then
        (if c = CHR '' '' then CHR ''+'' # QueryEscape s
         else CHR ''%'' # upperhex ! (of_char c div 16) # upperhex ! (of_char c mod 16)
                # QueryEscape s)
      else c # QueryEscape s)"

text \<open>The segments between separators, as the loop of \<^verbatim>\<open>parseQuery\<close> cuts them off.\<close>

fun segments :: "char \<Rightarrow> string \<Rightarrow> string list" where
  "segments sep [] = [[]]"
| "segments sep (c # s) =
     (if c = sep then [] # segments sep s
      else (case segments sep s of [] \<Rightarrow> [[c]] | f # fs \<Rightarrow> (c # f) # fs))"

text \<open>
  One round of the loop of \<^verbatim>\<open>parseQuery\<close>: a segment with a semicolon, an empty one and
  one with a malformed escape are skipped.
\<close>

definition parseQuery_step :: "Values \<Rightarrow> string \<Rightarrow> Values" where
  "parseQuery_step m seg =
     (if CHR '';'' \<in> set seg then m
      else if seg = [] then m
      else (case Cut seg CHR ''='' of (k, v, _) \<Rightarrow>
        (case QueryUnescape k of
           None \<Rightarrow> m
         | Some key \<Rightarrow>
             (case QueryUnescape v of
                None \<Rightarrow> m
              | Some val \<Rightarrow> Values_Add m key val))))"

text \<open>\<^verbatim>\<open>u.Query()\<close> is \<^verbatim>\<open>ParseQuery(u.RawQuery)\<close> with the error dropped.\<close>

definition URL_Query :: "URL \<Rightarrow> Values" where
  "URL_Query u = foldl parseQuery_step [] (segments CHR ''&'' (RawQuery u))"

text \<open>
  \<^verbatim>\<open>Values.Encode\<close>: the keys sorted, each value written as \<^verbatim>\<open>key=value\<close> with both
  sides escaped, an \<^verbatim>\<open>&\<close> before every pair but the first.
\<close>

definition Encode_pair :: "string \<Rightarrow> string \<Rightarrow> string \<Rightarrow> string" where
  "Encode_pair keyEscaped buf v =
     (if buf \<noteq> [] then buf @ ''&'' else buf) @ keyEscaped @ ''='' @ QueryEscape v"

definition Encode_key :: "Values \<Rightarrow> string \<Rightarrow> string \<Rightarrow> string" where
  "Encode_key m buf k = foldl (Encode_pair (QueryEscape k)) buf (Values_lookup m k)"

definition Values_Encode :: "Values \<Rightarrow> string" where
  "Values_Encode m = (if m = [] then [] else foldl (Encode_key m) [] (sort (map fst m)))"

text \<open>
  \<^verbatim>\<open>http.NewRequestWithContext\<close> fails on a nil context and on a URL that \<^verbatim>\<open>url.Parse\<close>
  rejects (the methods used here, GET and POST, are valid). Every caller in the
  source drops the error, so the result is the request pointer: \<open>None\<close> is nil.
\<close>

definition NewRequestWithContext ::
  "'fs Runtime \<Rightarrow> 'ctx option \<Rightarrow> string \<Rightarrow> string \<Rightarrow> bytes option \<Rightarrow> 'ctx Request option" where
  "NewRequestWithContext rt cx meth rawURL body =
     (case cx of
        None \<Rightarrow> None
      | Some c \<Rightarrow>
          (case url_Parse rt rawURL of
             None \<Rightarrow> None
           | Some u \<Rightarrow>
               Some \<lparr>ctx = c, Method = meth, URL = u, Header = Map.empty,
                     BasicAuth = None, Body_req = body\<rparr>))"

definition Header_Set :: "'ctx Request \<Rightarrow> string \<Rightarrow> string \<Rightarrow> 'ctx Request" where
  "Header_Set req key v = req\<lparr>Header := (Header req)(key \<mapsto> v)\<rparr>"

definition SetBasicAuth :: "'ctx Request \<Rightarrow> string \<Rightarrow> string \<Rightarrow> 'ctx Request" where
  "SetBasicAuth req username password = req\<lparr>BasicAuth := Some (username, password)\<rparr>"

text \<open>\<^verbatim>\<open>if c.credentials != nil { req.SetBasicAuth(...) }\<close> on a request that is not nil.\<close>

definition with_credentials :: "'ctx Client \<Rightarrow> 'ctx Request \<Rightarrow> 'ctx Request" where
  "with_credentials c req =
     (case credentials c of
        None \<Rightarrow> req
      | Some cr \<Rightarrow> SetBasicAuth req (User cr) (Password cr))"

section \<open>encoding/json into a slice of strings\<close>

text \<open>
  \<^verbatim>\<open>json.Unmarshal(data, &namespaces)\<close> with \<^verbatim>\<open>namespaces\<close> a nil \<^verbatim>\<open>[]string\<close>. A syntax
  error leaves the slice untouched. On a well-formed document a value of the wrong
  type is skipped, the first such error is kept, and decoding goes on: an array
  gives one element per item, the empty string where the item is null or not a
  string; null gives the nil slice; any other document leaves the slice nil.
\<close>

fun literalStore_string :: "json \<Rightarrow> string \<times> error option" where
  "literalStore_string (JString s) = (s, None)"
| "literalStore_string JNull = ([], None)"
| "literalStore_string _ = ([], Some json_UnmarshalTypeError)"

fun savedError :: "error option list \<Rightarrow> error option" where
  "savedError [] = None"
| "savedError (None # es) = savedError es"
| "savedError (Some e # es) = Some e"

fun decode_strings :: "json \<Rightarrow> string list \<times> error option" where
  "decode_strings (JArray items) =
     (map (fst \<circ> literalStore_string) items, savedError (map (snd \<circ> literalStore_string) items))"
| "decode_strings JNull = ([], None)"
| "decode_strings _ = ([], Some json_UnmarshalTypeError)"

definition Unmarshal_strings :: "'fs Runtime \<Rightarrow> bytes \<Rightarrow> string list \<times> error option" where
  "Unmarshal_strings rt data =
     (case json_scan rt data of
        None \<Rightarrow> ([], Some json_SyntaxError)
      | Some doc \<Rightarrow> decode_strings doc)"

section \<open>The client's methods\<close>

text \<open>
  Each method is split in two: the request it builds, and the call that sends the
  request and classifies the answer. A method returns what Go returns (or panics),
  paired with the state in which it leaves the response's body stream; there is no
  such stream (\<open>None\<close>) when no response was received.

  The request pointer is nil when \<^verbatim>\<open>NewRequestWithContext\<close> fails. The source drops
  that error and goes on to use the pointer: \<^verbatim>\<open>req.Header.Set\<close> in the two invoke
  methods, \<^verbatim>\<open>req.SetBasicAuth\<close>, \<^verbatim>\<open>req.URL.Query\<close> or \<^verbatim>\<open>c.client.Do(req)\<close> in the
  others all dereference it, so a nil request is a panic: \<open>None\<close> for the request
  built. The deferred \<^verbatim>\<open>req.Body.Close()\<close> changes nothing that a method returns and
  is left out.
\<close>

definition AuthorizedInvocation ::
  "'ctx Client \<Rightarrow> OpenFaaSInvocation \<Rightarrow> 'ctx Request \<Rightarrow> 'ctx Request" where
  "AuthorizedInvocation c invocation req =
     with_credentials c
       (Header_Set (Header_Set req ''Content-Type'' (ContentType invocation))
          ''Content-Encoding'' (ContentEncoding invocation))"

definition InvokeSync_request ::
  "'fs Runtime \<Rightarrow> 'ctx Client \<Rightarrow> 'ctx option \<Rightarrow> string \<Rightarrow> OpenFaaSInvocation
     \<Rightarrow> 'ctx Request option" where
  "InvokeSync_request rt c cx name invocation =
     map_option (AuthorizedInvocation c invocation)
       (NewRequestWithContext rt cx ''POST'' (url c @ ''/function/'' @ name)
          (Message invocation))"

definition InvokeSync ::
  "'fs Runtime \<Rightarrow> 'ctx Client \<Rightarrow> 'ctx option \<Rightarrow> string \<Rightarrow> OpenFaaSInvocation
     \<Rightarrow> bytes returned \<times> ReadCloser option" where
  "InvokeSync rt c cx name invocation =
     (case InvokeSync_request rt c cx name invocation of
        None \<Rightarrow> (Panic, None)
      | Some req \<Rightarrow>
          (case client c req of
             Inl err \<Rightarrow>
               (Return [] (Some (errors_Wrap err (''unable to invoke function '' @ name))),
                None)
           | Inr res \<Rightarrow>
               (case ioutil_ReadAll (body_stream res) of
                  (output, s) \<Rightarrow>
                    (if StatusCode res = 200 then Return output None
                     else if StatusCode res = 401 then
                       Return [] (Some (errors_New ''OpenFaaS Credentials are invalid''))
                     else if StatusCode res = 404 then
                       Return [] (Some (errors_New (''Function '' @ name @ '' is not deployed'')))
                     else
                       Return []
                         (Some (errors_New
                            (''Received unexpected Status Code '' @ fmt_d (StatusCode res)))),
                     Some (Close s)))))"

definition InvokeAsync_request ::
  "'fs Runtime \<Rightarrow> 'ctx Client \<Rightarrow> 'ctx option \<Rightarrow> string \<Rightarrow> OpenFaaSInvocation
     \<Rightarrow> 'ctx Request option" where
  "InvokeAsync_request rt c cx name invocation =
     map_option (AuthorizedInvocation c invocation)
       (NewRequestWithContext rt cx ''POST'' (url c @ ''/async-function/'' @ name)
          (Message invocation))"

definition InvokeAsync ::
  "'fs Runtime \<Rightarrow> 'ctx Client \<Rightarrow> 'ctx option \<Rightarrow> string \<Rightarrow> OpenFaaSInvocation
     \<Rightarrow> bool returned \<times> ReadCloser option" where
  "InvokeAsync rt c cx name invocation =
     (case InvokeAsync_request rt c cx name invocation of
        None \<Rightarrow> (Panic, None)
      | Some req \<Rightarrow>
          (case client c req of
             Inl err \<Rightarrow>
               (Return False (Some (errors_Wrap err (''unable to invoke function '' @ name))),
                None)
           | Inr res \<Rightarrow>
               (if StatusCode res = 202 then Return True None
                else if StatusCode res = 401 then
                  Return False (Some (errors_New ''OpenFaaS Credentials are invalid''))
                else if StatusCode res = 404 then
                  Return False (Some (errors_New (''Function '' @ name @ '' is not deployed'')))
                else
                  Return False
                    (Some (errors_New
                       (''Received unexpected Status Code '' @ fmt_d (StatusCode res)))),
                Some (Close (body_stream res)))))"

definition Namespaces_request ::
  "'fs Runtime \<Rightarrow> 'ctx Client \<Rightarrow> 'ctx option \<Rightarrow> 'ctx Request option" where
  "Namespaces_request rt c cx =
     map_option (with_credentials c)
       (NewRequestWithContext rt cx ''GET'' (url c @ ''/system/namespaces'') None)"

definition HasNamespaceSupport ::
  "'fs Runtime \<Rightarrow> 'ctx Client \<Rightarrow> 'ctx option \<Rightarrow> bool returned \<times> ReadCloser option" where
  "HasNamespaceSupport rt c cx =
     (case Namespaces_request rt c cx of
        None \<Rightarrow> (Panic, None)
      | Some req \<Rightarrow>
          (case client c req of
             Inl err \<Rightarrow>
               (Return False (Some (errors_Wrap err ''unable to determine namespace support'')),
                None)
           | Inr res \<Rightarrow>
               (if StatusCode res = 200 then
                  (case ioutil_ReadAll (body_stream res) of
                     (resp, s) \<Rightarrow>
                       (case Unmarshal_strings rt resp of
                          (namespaces, err) \<Rightarrow>
                            (Return (length namespaces > 0) None, Some (Close s))))
                else if StatusCode res = 401 then
                  (Return False (Some (errors_New ''OpenFaaS Credentials are invalid'')),
                   Some (Close (body_stream res)))
                else (Return False None, Some (Close (body_stream res))))))"

definition GetNamespaces ::
  "'fs Runtime \<Rightarrow> 'ctx Client \<Rightarrow> 'ctx option \<Rightarrow> string list returned \<times> ReadCloser option" where
  "GetNamespaces rt c cx =
     (case Namespaces_request rt c cx of
        None \<Rightarrow> (Panic, None)
      | Some req \<Rightarrow>
          (case client c req of
             Inl err \<Rightarrow> (Return [] (Some (errors_Wrap err ''unable to obtain namespaces'')), None)
           | Inr res \<Rightarrow>
               (case ioutil_ReadAll (body_stream res) of
                  (resp, s) \<Rightarrow>
                    (case Unmarshal_strings rt resp of
                       (namespaces, err) \<Rightarrow>
                         (if err \<noteq> None then
                            (if StatusCode res = 401 then
                               Return [] (Some (errors_New ''OpenFaaS Credentials are invalid''))
                             else Return namespaces None)
                          else Return namespaces None,
                          Some (Close s))))))"

definition GetFunctions_request ::
  "'fs Runtime \<Rightarrow> 'ctx Client \<Rightarrow> 'ctx option \<Rightarrow> string \<Rightarrow> 'ctx Request option" where
  "GetFunctions_request rt c cx namespace =
     (case NewRequestWithContext rt cx ''GET'' (url c @ ''/system/functions'') None of
        None \<Rightarrow> None
      | Some req0 \<Rightarrow>
          (let req = with_credentials c req0
           in if length namespace > 0 then
                (let q = Values_Add (URL_Query (URL req)) ''namespace'' namespace
                 in Some (req\<lparr>URL := (URL req)\<lparr>RawQuery := Values_Encode q\<rparr>\<rparr>))
              else Some req))"

definition GetFunctions ::
  "'fs Runtime \<Rightarrow> 'ctx Client \<Rightarrow> 'ctx option \<Rightarrow> string
     \<Rightarrow> 'fs list returned \<times> ReadCloser option" where
  "GetFunctions rt c cx namespace =
     (case GetFunctions_request rt c cx namespace of
        None \<Rightarrow> (Panic, None)
      | Some req \<Rightarrow>
          (case client c req of
             Inl err \<Rightarrow> (Return [] (Some (errors_Wrap err ''unable to obtain functions'')), None)
           | Inr res \<Rightarrow>
               (case ioutil_ReadAll (body_stream res) of
                  (resp, s) \<Rightarrow>
                    (case Unmarshal_FunctionStatus rt resp of
                       (functions, err) \<Rightarrow>
                         (if err \<noteq> None then
                            (if StatusCode res = 401 then
                               Return [] (Some (errors_New ''OpenFaaS Credentials are invalid''))
                             else
                               Return []
                                 (Some (errors_New
                                    (''Received unexpected Status Code ''
                                       @ fmt_d (StatusCode res)))))
                          else Return functions None,
                          Some (Close s))))))"

section \<open>The error classes of the specification\<close>

text \<open>
  The source's errors are messages. The specification names four classes of them;
  each is the set of errors that the source builds at the matching place.
\<close>

definition AuthenticationError :: error where
  "AuthenticationError = errors_New ''OpenFaaS Credentials are invalid''"

definition NotFoundError :: "string \<Rightarrow> error" where
  "NotFoundError name = errors_New (''Function '' @ name @ '' is not deployed'')"

definition UnexpectedStatusError :: "int \<Rightarrow> error" where
  "UnexpectedStatusError code = errors_New (''Received unexpected Status Code '' @ fmt_d code)"

definition TransportError :: "string \<Rightarrow> error \<Rightarrow> error" where
  "TransportError annotation cause = errors_Wrap cause annotation"

section \<open>A gateway for the examples\<close>

text \<open>
  A runtime and clients on which the theorems below are run. The runtime accepts a
  URL without a line feed, reads three JSON documents the way encoding/json does
  (every other body counts as a syntax error) and decodes function lists like
  namespace lists. \<open>gateway status body\<close> is a client without credentials whose
  transport answers every request with that status and body; \<open>unreachable\<close> is one
  whose transport fails.
\<close>

definition example_scan :: "bytes \<Rightarrow> json option" where
  "example_scan data =
     (if data = ''[]'' then Some (JArray [])
      else if data = ''[1]'' then Some (JArray [JNumber ''1''])
      else if data = [CHR ''['', CHR 0x22, CHR ''a'', CHR 0x22, CHR '','',
                      CHR 0x22, CHR ''b'', CHR 0x22, CHR '']'']
        then Some (JArray [JString ''a'', JString ''b''])
      else None)"

definition example_runtime :: "string Runtime" where
  "example_runtime =
     \<lparr>url_accepts = (\<lambda>s. CHR 0x0A \<notin> set s),
      json_scan = example_scan,
      Unmarshal_FunctionStatus =
        (\<lambda>data. case example_scan data of
                   None \<Rightarrow> ([], Some json_SyntaxError)
                 | Some doc \<Rightarrow> decode_strings doc)\<rparr>"

definition gateway_at :: "string \<Rightarrow> int \<Rightarrow> bytes \<Rightarrow> unit Client" where
  "gateway_at base status body =
     \<lparr>client = (\<lambda>req. Inr \<lparr>StatusCode = status, Body = body\<rparr>),
      credentials = None,
      url = base\<rparr>"

definition gateway :: "int \<Rightarrow> bytes \<Rightarrow> unit Client" where
  "gateway status body = gateway_at ''http://gw:8080'' status body"

definition unreachable :: "unit Client" where
  "unreachable =
     \<lparr>client = (\<lambda>req. Inl (errors_New ''connection refused'')),
      credentials = None,
      url = ''http://gw:8080''\<rparr>"

definition example_invocation :: OpenFaaSInvocation where
  "example_invocation =
     \<lparr>ContentType = ''text/plain'', ContentEncoding = ''utf-8'', Message = Some ''ping''\<rparr>"

section \<open>What each method returns to an answer of the gateway\<close>

text \<open>
  Once the request is built and the transport has answered with a response, the
  result of each method and the final state of the body stream are a function of the
  status code and the body.
\<close>

lemma InvokeSync_answer:
  assumes "InvokeSync_request rt c cx name invocation = Some req" and "client c req = Inr res"
  shows "InvokeSync rt c cx name invocation =
    (if StatusCode res = 200 then Return (Body res) None
     else if StatusCode res = 401 then Return [] (Some AuthenticationError)
     else if StatusCode res = 404 then Return [] (Some (NotFoundError name))
     else Return [] (Some (UnexpectedStatusError (StatusCode res))),
     Some \<lparr>unread = [], closed = True\<rparr>)"
  using assms
  by (simp add: InvokeSync_def ioutil_ReadAll_def body_stream_def Close_def
      AuthenticationError_def NotFoundError_def UnexpectedStatusError_def)

lemma InvokeAsync_answer:
  assumes "InvokeAsync_request rt c cx name invocation = Some req" and "client c req = Inr res"
  shows "InvokeAsync rt c cx name invocation =
    (if StatusCode res = 202 then Return True None
     else if StatusCode res = 401 then Return False (Some AuthenticationError)
     else if StatusCode res = 404 then Return False (Some (NotFoundError name))
     else Return False (Some (UnexpectedStatusError (StatusCode res))),
     Some \<lparr>unread = Body res, closed = True\<rparr>)"
  using assms
  by (simp add: InvokeAsync_def body_stream_def Close_def
      AuthenticationError_def NotFoundError_def UnexpectedStatusError_def)

lemma HasNamespaceSupport_answer:
  assumes "Namespaces_request rt c cx = Some req" and "client c req = Inr res"
  shows "HasNamespaceSupport rt c cx =
    (if StatusCode res = 200 then
       (Return (fst (Unmarshal_strings rt (Body res)) \<noteq> []) None,
        Some \<lparr>unread = [], closed = True\<rparr>)
     else if StatusCode res = 401 then
       (Return False (Some AuthenticationError), Some \<lparr>unread = Body res, closed = True\<rparr>)
     else (Return False None, Some \<lparr>unread = Body res, closed = True\<rparr>))"
  using assms
  by (simp add: HasNamespaceSupport_def ioutil_ReadAll_def body_stream_def Close_def
      AuthenticationError_def split: prod.split)

lemma GetNamespaces_answer:
  assumes "Namespaces_request rt c cx = Some req" and "client c req = Inr res"
  shows "GetNamespaces rt c cx =
    (if snd (Unmarshal_strings rt (Body res)) \<noteq> None \<and> StatusCode res = 401
     then Return [] (Some AuthenticationError)
     else Return (fst (Unmarshal_strings rt (Body res))) None,
     Some \<lparr>unread = [], closed = True\<rparr>)"
  using assms
  by (simp add: GetNamespaces_def ioutil_ReadAll_def body_stream_def Close_def
      AuthenticationError_def split: prod.split)

lemma GetFunctions_answer:
  assumes "GetFunctions_request rt c cx ns = Some req" and "client c req = Inr res"
  shows "GetFunctions rt c cx ns =
    (if snd (Unmarshal_FunctionStatus rt (Body res)) = None
     then Return (fst (Unmarshal_FunctionStatus rt (Body res))) None
     else if StatusCode res = 401 then Return [] (Some AuthenticationError)
     else Return [] (Some (UnexpectedStatusError (StatusCode res))),
     Some \<lparr>unread = [], closed = True\<rparr>)"
  using assms
  by (simp add: GetFunctions_def ioutil_ReadAll_def body_stream_def Close_def
      AuthenticationError_def UnexpectedStatusError_def split: prod.split)

lemma gateway_answers: "client (gateway_at base status body) req = Inr \<lparr>StatusCode = status, Body = body\<rparr>"
  by (simp add: gateway_at_def)

lemma example_accepts: "url_accepts example_runtime s = (CHR 0x0A \<notin> set s)"
  by (simp add: example_runtime_def)

lemma InvokeSync_request_example:
  "\<exists>req. InvokeSync_request example_runtime (gateway status body) (Some ()) ''echo'' example_invocation = Some req"
  by (simp add: InvokeSync_request_def NewRequestWithContext_def url_Parse_def example_accepts gateway_def gateway_at_def)

section \<open>The decimal text of a status code\<close>

text \<open>Different numbers are written differently, so an error message that holds the
  text of a status code holds the code.\<close>

lemma digits_nat_nonempty: "digits_nat n \<noteq> []"
  by (subst digits_nat.simps) simp

lemma digit_char_inj:
  assumes "a < 10" and "b < 10" and "''0123456789'' ! a = ''0123456789'' ! b"
  shows "a = b"
proof -
  have "distinct ''0123456789''" by simp
  moreover have "a < length ''0123456789''" and "b < length ''0123456789''"
    using assms by simp_all
  ultimately show ?thesis using assms(3) by (simp only: nth_eq_iff_index_eq)
qed

lemma digits_nat_inj: "digits_nat n = digits_nat m \<Longrightarrow> n = m"
proof (induction n arbitrary: m rule: digits_nat.induct)
  case (1 n)
  show ?case
  proof (cases "n < 10")
    case small: True
    show ?thesis
    proof (cases "m < 10")
      case True
      with small "1.prems" have "''0123456789'' ! n = ''0123456789'' ! m"
        by (subst (asm) digits_nat.simps, subst (asm) (2) digits_nat.simps) simp
      then show ?thesis using small True by (rule digit_char_inj[rotated 2])
    next
      case False
      have "digits_nat n = [''0123456789'' ! n]"
        using small by (subst digits_nat.simps) simp
      moreover have "digits_nat m = digits_nat (m div 10) @ [''0123456789'' ! (m mod 10)]"
        using False by (subst digits_nat.simps) simp
      ultimately have "digits_nat (m div 10) = []" using "1.prems" by simp
      then show ?thesis using digits_nat_nonempty by blast
    qed
  next
    case big: False
    have n: "digits_nat n = digits_nat (n div 10) @ [''0123456789'' ! (n mod 10)]"
      using big by (subst digits_nat.simps) simp
    show ?thesis
    proof (cases "m < 10")
      case True
      have "digits_nat m = [''0123456789'' ! m]"
        using True by (subst digits_nat.simps) simp
      with n "1.prems" have "digits_nat (n div 10) = []" by simp
      then show ?thesis using digits_nat_nonempty by blast
    next
      case False
      have m: "digits_nat m = digits_nat (m div 10) @ [''0123456789'' ! (m mod 10)]"
        using False by (subst digits_nat.simps) simp
      from n m "1.prems" have a: "digits_nat (n div 10) = digits_nat (m div 10)"
        and b: "''0123456789'' ! (n mod 10) = ''0123456789'' ! (m mod 10)" by simp_all
      from "1.IH"[OF big a] have "n div 10 = m div 10" .
      moreover have "n mod 10 = m mod 10"
        using b by (intro digit_char_inj) simp_all
      ultimately show ?thesis by (metis div_mult_mod_eq)
    qed
  qed
qed

lemma digits_nat_no_sign: "hd (digits_nat n) \<noteq> CHR ''-''"
proof (induction n rule: digits_nat.induct)
  case (1 n)
  show ?case
  proof (cases "n < 10")
    case True
    then have "digits_nat n = [''0123456789'' ! n]" by (subst digits_nat.simps) simp
    moreover have "''0123456789'' ! n \<in> set ''0123456789''"
      using True by (intro nth_mem) simp
    ultimately show ?thesis by auto
  next
    case False
    then have "digits_nat n = digits_nat (n div 10) @ [''0123456789'' ! (n mod 10)]"
      by (subst digits_nat.simps) simp
    then show ?thesis using "1.IH"[OF False] digits_nat_nonempty[of "n div 10"] by simp
  qed
qed

lemma fmt_d_inj: "fmt_d a = fmt_d b \<Longrightarrow> a = b"
proof -
  assume e: "fmt_d a = fmt_d b"
  have neg: False if "x < 0" and "\<not> y < 0" and "fmt_d x = fmt_d y" for x y
  proof -
    from that have "CHR ''-'' # digits_nat (nat (- x)) = digits_nat (nat y)"
      by (simp add: fmt_d_def)
    then have "hd (digits_nat (nat y)) = CHR ''-''" by (metis list.sel(1))
    then show False using digits_nat_no_sign by blast
  qed
  show "a = b"
  proof (cases "a < 0"; cases "b < 0")
    assume "a < 0" "b < 0"
    with e have "nat (- a) = nat (- b)" by (simp add: fmt_d_def digits_nat_inj)
    then show ?thesis using \<open>a < 0\<close> \<open>b < 0\<close> by simp
  next
    assume "a < 0" "\<not> b < 0" then show ?thesis using neg e by blast
  next
    assume "\<not> a < 0" "b < 0" then show ?thesis using neg[of b a] e by simp
  next
    assume "\<not> a < 0" "\<not> b < 0"
    with e have "nat a = nat b" by (simp add: fmt_d_def digits_nat_inj)
    then show ?thesis using \<open>\<not> a < 0\<close> \<open>\<not> b < 0\<close> by simp
  qed
qed

lemma UnexpectedStatusError_inj: "UnexpectedStatusError a = UnexpectedStatusError b \<longleftrightarrow> a = b"
  by (auto simp: UnexpectedStatusError_def dest: fmt_d_inj)

lemma NotFoundError_inj: "NotFoundError a = NotFoundError b \<longleftrightarrow> a = b"
  by (simp add: NotFoundError_def)

section \<open>Decoding a namespace list\<close>

lemma decode_strings_not_array:
  "(\<forall>items. doc \<noteq> JArray items) \<Longrightarrow> fst (decode_strings doc) = []"
  by (cases doc) simp_all

lemma Unmarshal_strings_not_array:
  "(\<forall>items. json_scan rt data \<noteq> Some (JArray items)) \<Longrightarrow> fst (Unmarshal_strings rt data) = []"
  by (auto simp: Unmarshal_strings_def split: option.split intro: decode_strings_not_array)

lemma Unmarshal_strings_array:
  "json_scan rt data = Some (JArray items) \<Longrightarrow>
     length (fst (Unmarshal_strings rt data)) = length items"
  by (simp add: Unmarshal_strings_def)

section \<open>Building a request\<close>

lemma NewRequestWithContext_None:
  "NewRequestWithContext rt cx meth rawURL body = None \<longleftrightarrow> cx = None \<or> \<not> url_accepts rt rawURL"
  by (simp add: NewRequestWithContext_def url_Parse_def split: option.split)

section \<open>The query of a request URL\<close>

lemma URL_Query_empty: "RawQuery u = [] \<Longrightarrow> URL_Query u = []"
  by (simp add: URL_Query_def parseQuery_step_def)

lemma QueryEscape_namespace: "QueryEscape ''namespace'' = ''namespace''"
  by (simp add: shouldEscape_def)

lemma Values_Encode_single:
  "Values_Encode [(''namespace'', [v])] = ''namespace='' @ QueryEscape v"
  by (simp add: Values_Encode_def Encode_key_def Encode_pair_def shouldEscape_def)

lemma Values_lookup_Add:
  "Values_lookup (Values_Add m key v) key = Values_lookup m key @ [v]"
  by (induction m key v rule: Values_Add.induct) simp_all

lemma Values_lookup_Add_other:
  "k \<noteq> key \<Longrightarrow> Values_lookup (Values_Add m key v) k = Values_lookup m k"
  by (induction m key v rule: Values_Add.induct) simp_all

lemma url_split_no_query:
  "CHR ''?'' \<notin> set rawURL \<Longrightarrow> RawQuery (url_split rawURL) = []"
proof -
  assume a: "CHR ''?'' \<notin> set rawURL"
  have "CHR ''?'' \<notin> set (takeWhile (\<lambda>c. c \<noteq> CHR ''#'') rawURL)"
    using a by (meson set_takeWhileD)
  then have d: "dropWhile (\<lambda>c. c \<noteq> CHR ''?'') (takeWhile (\<lambda>c. c \<noteq> CHR ''#'') rawURL) = []"
    by auto
  show ?thesis by (simp add: url_split_def Cut_def d)
qed

lemma upperhex_unreserved: "k < 16 \<Longrightarrow> \<not> shouldEscape (upperhex ! k)"
proof -
  assume "k < 16"
  then have "upperhex ! k \<in> set upperhex" by (intro nth_mem) (simp add: upperhex_def)
  moreover have "\<forall>ch \<in> set upperhex. \<not> shouldEscape ch"
    by (simp add: upperhex_def shouldEscape_def)
  ultimately show ?thesis by blast
qed

lemma of_char_bounds: "of_char c div 16 < (16::nat)" "of_char c mod 16 < (16::nat)"
proof -
  have "of_char c < (16::nat) * 16" by simp
  then show "of_char c div 16 < (16::nat)" by (rule less_mult_imp_div_less)
  show "of_char c mod 16 < (16::nat)" by simp
qed

lemma QueryEscape_chars:
  "ch \<in> set (QueryEscape s) \<Longrightarrow> \<not> shouldEscape ch \<or> ch = CHR ''+'' \<or> ch = CHR ''%''"
proof (induction s)
  case Nil
  then show ?case by simp
next
  case (Cons c s)
  then show ?case
    using upperhex_unreserved [OF of_char_bounds(1), of c]
      upperhex_unreserved [OF of_char_bounds(2), of c]
    by (auto split: if_splits)
qed

section \<open>Facts about the example gateway\<close>

lemma InvokeAsync_request_example:
  "\<exists>req. InvokeAsync_request example_runtime (gateway status body) (Some ()) ''echo'' example_invocation = Some req"
  by (simp add: InvokeAsync_request_def NewRequestWithContext_def url_Parse_def example_accepts gateway_def gateway_at_def)

lemma Namespaces_request_example:
  "\<exists>req. Namespaces_request example_runtime (gateway status body) (Some ()) = Some req"
  by (simp add: Namespaces_request_def NewRequestWithContext_def url_Parse_def example_accepts gateway_def gateway_at_def)

lemma GetFunctions_request_example:
  "\<exists>req. GetFunctions_request example_runtime (gateway status body) (Some ()) ns = Some req"
  by (simp add: GetFunctions_request_def NewRequestWithContext_def url_Parse_def example_accepts gateway_def gateway_at_def Let_def)

lemma gateway_client: "client (gateway status body) req = Inr \<lparr>StatusCode = status, Body = body\<rparr>"
  by (simp add: gateway_def gateway_answers)

lemma example_scan_simps:
  "json_scan example_runtime ''[]'' = Some (JArray [])"
  "json_scan example_runtime ''[1]'' = Some (JArray [JNumber ''1''])"
  "json_scan example_runtime [CHR ''['', CHR 0x22, CHR ''a'', CHR 0x22, CHR '','',
       CHR 0x22, CHR ''b'', CHR 0x22, CHR '']''] = Some (JArray [JString ''a'', JString ''b''])"
  "json_scan example_runtime ''oops'' = None"
  "json_scan example_runtime ''denied'' = None"
  by (simp_all add: example_runtime_def example_scan_def)

lemma example_Unmarshal_FunctionStatus:
  "Unmarshal_FunctionStatus example_runtime data = Unmarshal_strings example_runtime data"
  by (simp add: example_runtime_def Unmarshal_strings_def)

lemma unreachable_requests:
  "\<exists>req. InvokeSync_request example_runtime unreachable (Some ()) ''echo'' example_invocation = Some req"
  "\<exists>req. InvokeAsync_request example_runtime unreachable (Some ()) ''echo'' example_invocation = Some req"
  "\<exists>req. Namespaces_request example_runtime unreachable (Some ()) = Some req"
  "\<exists>req. GetFunctions_request example_runtime unreachable (Some ()) ns = Some req"
  by (simp_all add: InvokeSync_request_def InvokeAsync_request_def Namespaces_request_def
      GetFunctions_request_def NewRequestWithContext_def url_Parse_def example_accepts
      unreachable_def Let_def)

lemma unreachable_client: "client unreachable req = Inl (errors_New ''connection refused'')"
  by (simp add: unreachable_def)

section \<open>Properties of the client\<close>

text \<open>
  C1. For every function name and every invocation, \<open>InvokeSync\<close> on a response with
  status 200 returns the response body as it is, byte for byte, with no error. The
  statement holds for every runtime, so whatever the JSON scanner makes of the body
  has no part in it.
\<close>

theorem InvokeSync_200_returns_body:
  assumes "InvokeSync_request rt c cx name invocation = Some req"
    and "client c req = Inr res"
    and "StatusCode res = 200"
  shows "fst (InvokeSync rt c cx name invocation) = Return (Body res) None"
  using assms by (simp add: InvokeSync_answer)

theorem InvokeSync_200_returns_body_witness:
  "fst (InvokeSync example_runtime (gateway 200 ''{not json'') (Some ()) ''echo'' example_invocation)
     = Return ''{not json'' None"
proof -
  obtain req where r: "InvokeSync_request example_runtime (gateway 200 ''{not json'') (Some ()) ''echo'' example_invocation = Some req"
    using InvokeSync_request_example by blast
  have a: "client (gateway 200 ''{not json'') req = Inr \<lparr>StatusCode = 200, Body = ''{not json''\<rparr>"
    by (simp add: gateway_def gateway_answers)
  show ?thesis using InvokeSync_200_returns_body [OF r a] by simp
qed

text \<open>
  C2. \<open>InvokeSync\<close> and \<open>InvokeAsync\<close> classify a response alike, whatever the
  function name and the body: status 401 is an AuthenticationError, status 404 a
  NotFoundError of the function name, and every status that is neither the success
  code (200 for the synchronous call, 202 for the asynchronous one) nor 401 nor 404
  an UnexpectedStatusError of that status. The last two errors determine the name
  and the code they were made from.
\<close>

theorem invoke_error_classification:
  "(InvokeSync_request rt c cx name invocation = Some req \<and> client c req = Inr res \<longrightarrow>
      (StatusCode res = 401 \<longrightarrow>
         fst (InvokeSync rt c cx name invocation) = Return [] (Some AuthenticationError)) \<and>
      (StatusCode res = 404 \<longrightarrow>
         fst (InvokeSync rt c cx name invocation) = Return [] (Some (NotFoundError name))) \<and>
      (StatusCode res \<notin> {200, 401, 404} \<longrightarrow>
         fst (InvokeSync rt c cx name invocation)
           = Return [] (Some (UnexpectedStatusError (StatusCode res))))) \<and>
   (InvokeAsync_request rt c cx name invocation = Some req' \<and> client c req' = Inr res' \<longrightarrow>
      (StatusCode res' = 401 \<longrightarrow>
         fst (InvokeAsync rt c cx name invocation) = Return False (Some AuthenticationError)) \<and>
      (StatusCode res' = 404 \<longrightarrow>
         fst (InvokeAsync rt c cx name invocation) = Return False (Some (NotFoundError name))) \<and>
      (StatusCode res' \<notin> {202, 401, 404} \<longrightarrow>
         fst (InvokeAsync rt c cx name invocation)
           = Return False (Some (UnexpectedStatusError (StatusCode res'))))) \<and>
   (NotFoundError name = NotFoundError name' \<longrightarrow> name = name') \<and>
   (UnexpectedStatusError code = UnexpectedStatusError code' \<longrightarrow> code = code')"
proof (intro conjI impI)
  assume "NotFoundError name = NotFoundError name'"
  then show "name = name'" by (simp add: NotFoundError_inj)
next
  assume "UnexpectedStatusError code = UnexpectedStatusError code'"
  then show "code = code'" by (simp add: UnexpectedStatusError_inj)
qed (simp_all add: InvokeSync_answer InvokeAsync_answer)

theorem invoke_error_classification_witness:
  "fst (InvokeSync example_runtime (gateway 401 ''denied'') (Some ()) ''echo'' example_invocation)
     = Return [] (Some AuthenticationError) \<and>
   fst (InvokeSync example_runtime (gateway 404 []) (Some ()) ''echo'' example_invocation)
     = Return [] (Some (NotFoundError ''echo'')) \<and>
   fst (InvokeSync example_runtime (gateway 503 ''busy'') (Some ()) ''echo'' example_invocation)
     = Return [] (Some (UnexpectedStatusError 503)) \<and>
   fst (InvokeAsync example_runtime (gateway 401 []) (Some ()) ''echo'' example_invocation)
     = Return False (Some AuthenticationError) \<and>
   fst (InvokeAsync example_runtime (gateway 404 ''none'') (Some ()) ''echo'' example_invocation)
     = Return False (Some (NotFoundError ''echo'')) \<and>
   fst (InvokeAsync example_runtime (gateway 500 []) (Some ()) ''echo'' example_invocation)
     = Return False (Some (UnexpectedStatusError 500))"
proof -
  have sync: "fst (InvokeSync example_runtime (gateway status body) (Some ()) ''echo'' example_invocation)
      = Return [] (Some e)"
    if "status = 401 \<and> e = AuthenticationError \<or> status = 404 \<and> e = NotFoundError ''echo''
        \<or> status \<notin> {200, 401, 404} \<and> e = UnexpectedStatusError status"
    for status body e
  proof -
    obtain req where r: "InvokeSync_request example_runtime (gateway status body) (Some ())
        ''echo'' example_invocation = Some req"
      using InvokeSync_request_example by blast
    show ?thesis
      using invoke_error_classification [of example_runtime "gateway status body" "Some ()"
          "''echo''" example_invocation req "\<lparr>StatusCode = status, Body = body\<rparr>"] r that
      by (auto simp: gateway_client)
  qed
  have async: "fst (InvokeAsync example_runtime (gateway status body) (Some ()) ''echo'' example_invocation)
      = Return False (Some e)"
    if "status = 401 \<and> e = AuthenticationError \<or> status = 404 \<and> e = NotFoundError ''echo''
        \<or> status \<notin> {202, 401, 404} \<and> e = UnexpectedStatusError status"
    for status body e
  proof -
    obtain req where r: "InvokeAsync_request example_runtime (gateway status body) (Some ())
        ''echo'' example_invocation = Some req"
      using InvokeAsync_request_example by blast
    show ?thesis
      using invoke_error_classification [of example_runtime "gateway status body" "Some ()"
          "''echo''" example_invocation _ _ req "\<lparr>StatusCode = status, Body = body\<rparr>"] r that
      by (auto simp: gateway_client)
  qed
  show ?thesis by (intro conjI sync async) simp_all
qed



text \<open>
  C4. \<open>GetNamespaces\<close> returns the decoded list, possibly empty, with no
  error whenever decoding succeeds, whatever the status. When decoding fails,
  status 401 is an AuthenticationError, and every other status returns the list
  that decoding left, with no error. That list is empty when the body is no JSON
  array; for a JSON array it has one entry for each item of the array, so it is
  not empty in general.
\<close>

theorem GetNamespaces_classification:
  assumes "Namespaces_request rt c cx = Some req" and "client c req = Inr res"
  shows
    "(snd (Unmarshal_strings rt (Body res)) = None \<longrightarrow>
        fst (GetNamespaces rt c cx) = Return (fst (Unmarshal_strings rt (Body res))) None) \<and>
     (snd (Unmarshal_strings rt (Body res)) \<noteq> None \<and> StatusCode res = 401 \<longrightarrow>
        fst (GetNamespaces rt c cx) = Return [] (Some AuthenticationError)) \<and>
     (snd (Unmarshal_strings rt (Body res)) \<noteq> None \<and> StatusCode res \<noteq> 401 \<longrightarrow>
        fst (GetNamespaces rt c cx) = Return (fst (Unmarshal_strings rt (Body res))) None) \<and>
     ((\<forall>items. json_scan rt (Body res) \<noteq> Some (JArray items)) \<longrightarrow>
        fst (Unmarshal_strings rt (Body res)) = []) \<and>
     (\<forall>items. json_scan rt (Body res) = Some (JArray items) \<longrightarrow>
        length (fst (Unmarshal_strings rt (Body res))) = length items)"
  using assms
  by (simp add: GetNamespaces_answer Unmarshal_strings_not_array Unmarshal_strings_array)

theorem GetNamespaces_classification_witness:
  "fst (GetNamespaces example_runtime
          (gateway 200 [CHR ''['', CHR 0x22, CHR ''a'', CHR 0x22, CHR '','',
                        CHR 0x22, CHR ''b'', CHR 0x22, CHR '']'']) (Some ()))
     = Return [''a'', ''b''] None \<and>
   fst (GetNamespaces example_runtime (gateway 401 ''denied'') (Some ()))
     = Return [] (Some AuthenticationError) \<and>
   fst (GetNamespaces example_runtime (gateway 500 ''oops'') (Some ())) = Return [] None"
proof -
  have run: "fst (GetNamespaces example_runtime (gateway status body) (Some ())) = r"
    if "snd (Unmarshal_strings example_runtime body) = None
          \<and> r = Return (fst (Unmarshal_strings example_runtime body)) None
        \<or> snd (Unmarshal_strings example_runtime body) \<noteq> None \<and> status = 401
          \<and> r = Return [] (Some AuthenticationError)
        \<or> snd (Unmarshal_strings example_runtime body) \<noteq> None \<and> status \<noteq> 401
          \<and> r = Return (fst (Unmarshal_strings example_runtime body)) None"
    for status body r
  proof -
    obtain req where r: "Namespaces_request example_runtime (gateway status body) (Some ()) = Some req"
      using Namespaces_request_example by blast
    show ?thesis
      using GetNamespaces_classification [OF r gateway_client] that by auto
  qed
  show ?thesis
    by (intro conjI run) (simp_all add: Unmarshal_strings_def example_scan_simps)
qed

text \<open>
  The body \<^verbatim>\<open>[1]\<close> is a JSON array whose item is not a string. Decoding fails with a
  type error and leaves one empty string in the slice, which \<open>GetNamespaces\<close>
  returns with no error on status 200: the list returned after a failed decoding is
  not always empty.
\<close>

theorem GetNamespaces_partial_list_counterexample:
  "snd (Unmarshal_strings example_runtime ''[1]'') = Some json_UnmarshalTypeError \<and>
   fst (GetNamespaces example_runtime (gateway 200 ''[1]'') (Some ())) = Return [''''] None \<and>
   fst (GetNamespaces example_runtime (gateway 200 ''[1]'') (Some ())) \<noteq> Return [] None"
  by (simp add: GetNamespaces_def Namespaces_request_def NewRequestWithContext_def url_Parse_def
      example_accepts gateway_def gateway_at_def ioutil_ReadAll_def body_stream_def
      Unmarshal_strings_def example_scan_simps)

text \<open>
  C5. \<open>GetFunctions\<close> returns the decoded list with no error whenever decoding
  succeeds, whatever the status. When decoding fails, status 401 is an
  AuthenticationError and every other status, 200 included, an
  UnexpectedStatusError of that status.
\<close>

theorem GetFunctions_classification:
  assumes "GetFunctions_request rt c cx namespace = Some req" and "client c req = Inr res"
  shows
    "(snd (Unmarshal_FunctionStatus rt (Body res)) = None \<longrightarrow>
        fst (GetFunctions rt c cx namespace)
          = Return (fst (Unmarshal_FunctionStatus rt (Body res))) None) \<and>
     (snd (Unmarshal_FunctionStatus rt (Body res)) \<noteq> None \<and> StatusCode res = 401 \<longrightarrow>
        fst (GetFunctions rt c cx namespace) = Return [] (Some AuthenticationError)) \<and>
     (snd (Unmarshal_FunctionStatus rt (Body res)) \<noteq> None \<and> StatusCode res \<noteq> 401 \<longrightarrow>
        fst (GetFunctions rt c cx namespace)
          = Return [] (Some (UnexpectedStatusError (StatusCode res))))"
  using assms by (simp add: GetFunctions_answer)

theorem GetFunctions_classification_witness:
  "fst (GetFunctions example_runtime
          (gateway 500 [CHR ''['', CHR 0x22, CHR ''a'', CHR 0x22, CHR '','',
                        CHR 0x22, CHR ''b'', CHR 0x22, CHR '']'']) (Some ()) ''dev'')
     = Return [''a'', ''b''] None \<and>
   fst (GetFunctions example_runtime (gateway 401 ''denied'') (Some ()) ''dev'')
     = Return [] (Some AuthenticationError) \<and>
   fst (GetFunctions example_runtime (gateway 200 ''oops'') (Some ()) [])
     = Return [] (Some (UnexpectedStatusError 200))"
proof -
  have run: "fst (GetFunctions example_runtime (gateway status body) (Some ()) ns) = r"
    if "snd (Unmarshal_strings example_runtime body) = None
          \<and> r = Return (fst (Unmarshal_strings example_runtime body)) None
        \<or> snd (Unmarshal_strings example_runtime body) \<noteq> None \<and> status = 401
          \<and> r = Return [] (Some AuthenticationError)
        \<or> snd (Unmarshal_strings example_runtime body) \<noteq> None \<and> status \<noteq> 401
          \<and> r = Return [] (Some (UnexpectedStatusError status))"
    for status body ns and r :: "string list returned"
  proof -
    obtain req where r: "GetFunctions_request example_runtime (gateway status body) (Some ()) ns = Some req"
      using GetFunctions_request_example by blast
    show ?thesis
      using GetFunctions_classification [OF r gateway_client] that
      by (auto simp: example_Unmarshal_FunctionStatus)
  qed
  show ?thesis
    by (intro conjI run) (simp_all add: Unmarshal_strings_def example_scan_simps)
qed

text \<open>
  C6. \<open>InvokeAsync\<close> returns true with no error exactly when the request was built
  and the gateway answered it with status 202. Every other status from 200 to 299
  is an UnexpectedStatusError of that status.
\<close>

theorem InvokeAsync_accepts_only_202:
  "(fst (InvokeAsync rt c cx name invocation) = Return True None \<longleftrightarrow>
      (\<exists>req res. InvokeAsync_request rt c cx name invocation = Some req
         \<and> client c req = Inr res \<and> StatusCode res = 202)) \<and>
   (\<forall>req res. InvokeAsync_request rt c cx name invocation = Some req \<and> client c req = Inr res
       \<and> 200 \<le> StatusCode res \<and> StatusCode res < 300 \<and> StatusCode res \<noteq> 202 \<longrightarrow>
       fst (InvokeAsync rt c cx name invocation)
         = Return False (Some (UnexpectedStatusError (StatusCode res))))"
proof (intro conjI allI impI iffI)
  assume "fst (InvokeAsync rt c cx name invocation) = Return True None"
  then show "\<exists>req res. InvokeAsync_request rt c cx name invocation = Some req
         \<and> client c req = Inr res \<and> StatusCode res = 202"
    by (auto simp: InvokeAsync_def split: option.splits sum.splits if_splits)
next
  assume "\<exists>req res. InvokeAsync_request rt c cx name invocation = Some req
         \<and> client c req = Inr res \<and> StatusCode res = 202"
  then show "fst (InvokeAsync rt c cx name invocation) = Return True None"
    by (auto simp: InvokeAsync_answer)
next
  fix req res
  assume "InvokeAsync_request rt c cx name invocation = Some req \<and> client c req = Inr res
       \<and> 200 \<le> StatusCode res \<and> StatusCode res < 300 \<and> StatusCode res \<noteq> 202"
  then show "fst (InvokeAsync rt c cx name invocation)
         = Return False (Some (UnexpectedStatusError (StatusCode res)))"
    by (auto simp: InvokeAsync_answer)
qed

theorem InvokeAsync_accepts_only_202_witness:
  "fst (InvokeAsync example_runtime (gateway 202 []) (Some ()) ''echo'' example_invocation)
     = Return True None \<and>
   fst (InvokeAsync example_runtime (gateway 200 ''done'') (Some ()) ''echo'' example_invocation)
     = Return False (Some (UnexpectedStatusError 200)) \<and>
   fst (InvokeAsync example_runtime (gateway 204 []) (Some ()) ''echo'' example_invocation)
     = Return False (Some (UnexpectedStatusError 204))"
proof -
  have accepted: "fst (InvokeAsync example_runtime (gateway 202 body) (Some ()) ''echo'' example_invocation)
      = Return True None" for body
  proof -
    obtain req where r: "InvokeAsync_request example_runtime (gateway 202 body) (Some ())
        ''echo'' example_invocation = Some req"
      using InvokeAsync_request_example by blast
    show ?thesis
      using InvokeAsync_accepts_only_202 [of example_runtime "gateway 202 body" "Some ()"
          "''echo''" example_invocation] r
      by (auto simp: gateway_client)
  qed
  have other: "fst (InvokeAsync example_runtime (gateway status body) (Some ()) ''echo'' example_invocation)
      = Return False (Some (UnexpectedStatusError status))"
    if "200 \<le> status" "status < 300" "status \<noteq> 202" for status body
  proof -
    obtain req where r: "InvokeAsync_request example_runtime (gateway status body) (Some ())
        ''echo'' example_invocation = Some req"
      using InvokeAsync_request_example by blast
    show ?thesis
      using InvokeAsync_accepts_only_202 [of example_runtime "gateway status body" "Some ()"
          "''echo''" example_invocation] r that
      by (auto simp: gateway_client)
  qed
  show ?thesis by (intro conjI accepted other) simp_all
qed

text \<open>
  C7. \<open>GetFunctions\<close> adds one value to the \<^verbatim>\<open>namespace\<close> key of the
  request URL's query exactly when the namespace given is not empty, and leaves
  every other key of the query as the base URL has it; with an empty namespace the
  query stays as parsed from the base URL. When the base URL has no question mark,
  the query parsed from it is empty, and then the query sent is the single pair
  \<^verbatim>\<open>namespace=<value>\<close> for a namespace that is not empty, and no query at all for an
  empty one. The value is URL-encoded: it is written with unreserved bytes, \<^verbatim>\<open>+\<close>
  and \<^verbatim>\<open>%\<close> only.
\<close>

theorem GetFunctions_namespace_parameter:
  assumes "NewRequestWithContext rt cx ''GET'' (url c @ ''/system/functions'') None = Some req0"
  shows
    "GetFunctions_request rt c cx namespace
       = Some ((with_credentials c req0)
           \<lparr>URL := (URL req0)
              \<lparr>RawQuery :=
                 (if namespace = [] then RawQuery (URL req0)
                  else Values_Encode (Values_Add (URL_Query (URL req0)) ''namespace'' namespace))\<rparr>\<rparr>) \<and>
     Values_lookup (Values_Add (URL_Query (URL req0)) ''namespace'' namespace) ''namespace''
       = Values_lookup (URL_Query (URL req0)) ''namespace'' @ [namespace] \<and>
     (\<forall>key. key \<noteq> ''namespace'' \<longrightarrow>
        Values_lookup (Values_Add (URL_Query (URL req0)) ''namespace'' namespace) key
          = Values_lookup (URL_Query (URL req0)) key) \<and>
     (CHR ''?'' \<notin> set (url c) \<longrightarrow> RawQuery (URL req0) = []) \<and>
     (RawQuery (URL req0) = [] \<longrightarrow>
        map_option (RawQuery \<circ> URL) (GetFunctions_request rt c cx namespace)
          = Some (if namespace = [] then [] else ''namespace='' @ QueryEscape namespace)) \<and>
     (\<forall>ch \<in> set (QueryEscape namespace). \<not> shouldEscape ch \<or> ch = CHR ''+'' \<or> ch = CHR ''%'')"
proof -
  have u: "URL (with_credentials c req0) = URL req0"
    by (simp add: with_credentials_def SetBasicAuth_def split: option.split)
  have built: "GetFunctions_request rt c cx namespace
       = Some ((with_credentials c req0)
           \<lparr>URL := (URL req0)
              \<lparr>RawQuery :=
                 (if namespace = [] then RawQuery (URL req0)
                  else Values_Encode (Values_Add (URL_Query (URL req0)) ''namespace'' namespace))\<rparr>\<rparr>)"
    using assms u by (simp add: GetFunctions_request_def Let_def)
  have split: "URL req0 = url_split (url c @ ''/system/functions'')"
    using assms
    by (auto simp: NewRequestWithContext_def url_Parse_def split: option.splits if_splits)
  have plain: "RawQuery (URL req0) = []" if "CHR ''?'' \<notin> set (url c)"
    using that by (simp add: split url_split_no_query)
  have only: "map_option (RawQuery \<circ> URL) (GetFunctions_request rt c cx namespace)
          = Some (if namespace = [] then [] else ''namespace='' @ QueryEscape namespace)"
    if "RawQuery (URL req0) = []"
    using that by (simp add: built URL_Query_empty Values_Encode_single)
  show ?thesis
    using built plain only QueryEscape_chars
    by (simp add: Values_lookup_Add Values_lookup_Add_other)
qed

theorem GetFunctions_namespace_parameter_witness:
  "map_option (RawQuery \<circ> URL)
     (GetFunctions_request example_runtime (gateway 200 ''[]'') (Some ()) ''my ns/1&x'')
     = Some ''namespace=my+ns%2F1%26x'' \<and>
   map_option (RawQuery \<circ> URL)
     (GetFunctions_request example_runtime (gateway 200 ''[]'') (Some ()) [])
     = Some []"
proof -
  obtain req0 where r:
    "NewRequestWithContext example_runtime (Some ()) ''GET''
       (url (gateway 200 ''[]'') @ ''/system/functions'') None = Some (req0 :: unit Request)"
    by (simp add: NewRequestWithContext_def url_Parse_def example_accepts gateway_def
        gateway_at_def)
  have q: "CHR ''?'' \<notin> set (url (gateway 200 ''[]''))"
    by (simp add: gateway_def gateway_at_def)
  have "map_option (RawQuery \<circ> URL)
          (GetFunctions_request example_runtime (gateway 200 ''[]'') (Some ()) ns)
        = Some (if ns = [] then [] else ''namespace='' @ QueryEscape ns)" for ns
    using GetFunctions_namespace_parameter [OF r, of ns] q by blast
  from this [of "''my ns/1&x''"] this [of "[]"] show ?thesis
    by (simp add: shouldEscape_def upperhex_def)
qed

text \<open>
  A base URL may hold a query of its own, which \<^verbatim>\<open>req.URL.Query()\<close> keeps. With the
  base URL \<^verbatim>\<open>http://gw:8080?a=b\<close> and an empty namespace the request URL still has a
  query parameter; with \<^verbatim>\<open>http://gw:8080?namespace=a&b=\<close> and the namespace \<^verbatim>\<open>z\<close> the
  \<^verbatim>\<open>namespace\<close> parameter stands twice.
\<close>

theorem base_query_counterexample:
  "map_option (RawQuery \<circ> URL)
     (GetFunctions_request example_runtime (gateway_at ''http://gw:8080?a=b'' 200 ''[]'')
        (Some ()) [])
     = Some ''a=b/system/functions'' \<and>
   map_option (RawQuery \<circ> URL)
     (GetFunctions_request example_runtime
        (gateway_at ''http://gw:8080?namespace=a&b='' 200 ''[]'') (Some ()) ''z'')
     = Some ''b=%2Fsystem%2Ffunctions&namespace=a&namespace=z''"
  by code_simp

text \<open>
  C8. In all five methods a failure of the transport is classified first:
  the method returns a TransportError that wraps the cause, and no status code or
  body is looked at. In \<open>InvokeSync\<close>, \<open>InvokeAsync\<close> and \<open>HasNamespaceSupport\<close> the
  status code alone then selects the outcome, and status 401 is an
  AuthenticationError whatever the body. In \<open>GetNamespaces\<close> and \<open>GetFunctions\<close> the
  body is decoded first and status 401 is looked at only when decoding failed: a
  response with status 401 whose body decodes is returned as a success.
\<close>

theorem classification_order:
  "(InvokeSync_request rt c cx name invocation = Some req1 \<and> client c req1 = Inl err1 \<longrightarrow>
      InvokeSync rt c cx name invocation
        = (Return [] (Some (TransportError (''unable to invoke function '' @ name) err1)), None)) \<and>
   (InvokeAsync_request rt c cx name invocation = Some req2 \<and> client c req2 = Inl err2 \<longrightarrow>
      InvokeAsync rt c cx name invocation
        = (Return False (Some (TransportError (''unable to invoke function '' @ name) err2)), None)) \<and>
   (Namespaces_request rt c cx = Some req3 \<and> client c req3 = Inl err3 \<longrightarrow>
      HasNamespaceSupport rt c cx
        = (Return False (Some (TransportError ''unable to determine namespace support'' err3)), None) \<and>
      GetNamespaces rt c cx
        = (Return [] (Some (TransportError ''unable to obtain namespaces'' err3)), None)) \<and>
   (GetFunctions_request rt c cx namespace = Some req4 \<and> client c req4 = Inl err4 \<longrightarrow>
      GetFunctions rt c cx namespace
        = (Return [] (Some (TransportError ''unable to obtain functions'' err4)), None)) \<and>
   (InvokeSync_request rt c cx name invocation = Some req1 \<and> client c req1 = Inr res1
      \<and> StatusCode res1 = 401 \<longrightarrow>
      fst (InvokeSync rt c cx name invocation) = Return [] (Some AuthenticationError)) \<and>
   (InvokeAsync_request rt c cx name invocation = Some req2 \<and> client c req2 = Inr res2
      \<and> StatusCode res2 = 401 \<longrightarrow>
      fst (InvokeAsync rt c cx name invocation) = Return False (Some AuthenticationError)) \<and>
   (Namespaces_request rt c cx = Some req3 \<and> client c req3 = Inr res3 \<and> StatusCode res3 = 401 \<longrightarrow>
      fst (HasNamespaceSupport rt c cx) = Return False (Some AuthenticationError) \<and>
      fst (GetNamespaces rt c cx)
        = (if snd (Unmarshal_strings rt (Body res3)) = None
           then Return (fst (Unmarshal_strings rt (Body res3))) None
           else Return [] (Some AuthenticationError))) \<and>
   (GetFunctions_request rt c cx namespace = Some req4 \<and> client c req4 = Inr res4
      \<and> StatusCode res4 = 401 \<longrightarrow>
      fst (GetFunctions rt c cx namespace)
        = (if snd (Unmarshal_FunctionStatus rt (Body res4)) = None
           then Return (fst (Unmarshal_FunctionStatus rt (Body res4))) None
           else Return [] (Some AuthenticationError)))"
proof (intro conjI impI; (elim conjE)?)
  assume "InvokeSync_request rt c cx name invocation = Some req1" "client c req1 = Inl err1"
  then show "InvokeSync rt c cx name invocation
        = (Return [] (Some (TransportError (''unable to invoke function '' @ name) err1)), None)"
    by (simp add: InvokeSync_def TransportError_def)
next
  assume "InvokeAsync_request rt c cx name invocation = Some req2" "client c req2 = Inl err2"
  then show "InvokeAsync rt c cx name invocation
        = (Return False (Some (TransportError (''unable to invoke function '' @ name) err2)), None)"
    by (simp add: InvokeAsync_def TransportError_def)
next
  assume "Namespaces_request rt c cx = Some req3" "client c req3 = Inl err3"
  then show "HasNamespaceSupport rt c cx
        = (Return False (Some (TransportError ''unable to determine namespace support'' err3)), None)"
    by (simp add: HasNamespaceSupport_def TransportError_def)
next
  assume "Namespaces_request rt c cx = Some req3" "client c req3 = Inl err3"
  then show "GetNamespaces rt c cx
        = (Return [] (Some (TransportError ''unable to obtain namespaces'' err3)), None)"
    by (simp add: GetNamespaces_def TransportError_def)
next
  assume "GetFunctions_request rt c cx namespace = Some req4" "client c req4 = Inl err4"
  then show "GetFunctions rt c cx namespace
        = (Return [] (Some (TransportError ''unable to obtain functions'' err4)), None)"
    by (simp add: GetFunctions_def TransportError_def)
qed (simp_all add: InvokeSync_answer InvokeAsync_answer HasNamespaceSupport_answer
    GetNamespaces_answer GetFunctions_answer)

theorem classification_order_witness:
  "InvokeSync example_runtime unreachable (Some ()) ''echo'' example_invocation
     = (Return [] (Some (TransportError ''unable to invoke function echo''
                           (errors_New ''connection refused''))), None) \<and>
   InvokeAsync example_runtime unreachable (Some ()) ''echo'' example_invocation
     = (Return False (Some (TransportError ''unable to invoke function echo''
                              (errors_New ''connection refused''))), None) \<and>
   HasNamespaceSupport example_runtime unreachable (Some ())
     = (Return False (Some (TransportError ''unable to determine namespace support''
                              (errors_New ''connection refused''))), None) \<and>
   GetNamespaces example_runtime unreachable (Some ())
     = (Return [] (Some (TransportError ''unable to obtain namespaces''
                           (errors_New ''connection refused''))), None) \<and>
   GetFunctions example_runtime unreachable (Some ()) ''dev''
     = (Return [] (Some (TransportError ''unable to obtain functions''
                           (errors_New ''connection refused''))), None) \<and>
   fst (InvokeSync example_runtime (gateway 401 ''[]'') (Some ()) ''echo'' example_invocation)
     = Return [] (Some AuthenticationError) \<and>
   fst (InvokeAsync example_runtime (gateway 401 ''[]'') (Some ()) ''echo'' example_invocation)
     = Return False (Some AuthenticationError) \<and>
   fst (HasNamespaceSupport example_runtime (gateway 401 ''[]'') (Some ()))
     = Return False (Some AuthenticationError) \<and>
   fst (GetNamespaces example_runtime (gateway 401 ''[]'') (Some ())) = Return [] None \<and>
   fst (GetNamespaces example_runtime (gateway 401 ''denied'') (Some ()))
     = Return [] (Some AuthenticationError) \<and>
   fst (GetFunctions example_runtime (gateway 401 ''[]'') (Some ()) ''dev'') = Return [] None \<and>
   fst (GetFunctions example_runtime (gateway 401 ''denied'') (Some ()) ''dev'')
     = Return [] (Some AuthenticationError)"
proof -
  obtain u1 u2 u3 u4 where u:
    "InvokeSync_request example_runtime unreachable (Some ()) ''echo'' example_invocation = Some u1"
    "InvokeAsync_request example_runtime unreachable (Some ()) ''echo'' example_invocation = Some u2"
    "Namespaces_request example_runtime unreachable (Some ()) = Some u3"
    "GetFunctions_request example_runtime unreachable (Some ()) ''dev'' = Some u4"
    using unreachable_requests by blast
  have failed:
    "InvokeSync example_runtime unreachable (Some ()) ''echo'' example_invocation
       = (Return [] (Some (TransportError (''unable to invoke function '' @ ''echo'')
                             (errors_New ''connection refused''))), None)"
    "InvokeAsync example_runtime unreachable (Some ()) ''echo'' example_invocation
       = (Return False (Some (TransportError (''unable to invoke function '' @ ''echo'')
                                (errors_New ''connection refused''))), None)"
    "HasNamespaceSupport example_runtime unreachable (Some ())
       = (Return False (Some (TransportError ''unable to determine namespace support''
                                (errors_New ''connection refused''))), None)"
    "GetNamespaces example_runtime unreachable (Some ())
       = (Return [] (Some (TransportError ''unable to obtain namespaces''
                             (errors_New ''connection refused''))), None)"
    "GetFunctions example_runtime unreachable (Some ()) ''dev''
       = (Return [] (Some (TransportError ''unable to obtain functions''
                             (errors_New ''connection refused''))), None)"
    using classification_order [where rt = example_runtime and c = unreachable and cx = "Some ()"
        and name = "''echo''" and invocation = example_invocation and namespace = "''dev''"
        and ?req1.0 = u1 and ?req2.0 = u2 and ?req3.0 = u3 and ?req4.0 = u4
        and ?err1.0 = "errors_New ''connection refused''"
        and ?err2.0 = "errors_New ''connection refused''"
        and ?err3.0 = "errors_New ''connection refused''"
        and ?err4.0 = "errors_New ''connection refused''"] u
    by (simp_all add: unreachable_client)
  have denied:
    "fst (InvokeSync example_runtime (gateway 401 body) (Some ()) ''echo'' example_invocation)
       = Return [] (Some AuthenticationError)"
    "fst (InvokeAsync example_runtime (gateway 401 body) (Some ()) ''echo'' example_invocation)
       = Return False (Some AuthenticationError)"
    "fst (HasNamespaceSupport example_runtime (gateway 401 body) (Some ()))
       = Return False (Some AuthenticationError)"
    "fst (GetNamespaces example_runtime (gateway 401 body) (Some ()))
       = (if snd (Unmarshal_strings example_runtime body) = None
          then Return (fst (Unmarshal_strings example_runtime body)) None
          else Return [] (Some AuthenticationError))"
    "fst (GetFunctions example_runtime (gateway 401 body) (Some ()) ''dev'')
       = (if snd (Unmarshal_strings example_runtime body) = None
          then Return (fst (Unmarshal_strings example_runtime body)) None
          else Return [] (Some AuthenticationError))"
    for body
  proof -
    obtain g1 g2 g3 g4 where g:
      "InvokeSync_request example_runtime (gateway 401 body) (Some ()) ''echo'' example_invocation = Some g1"
      "InvokeAsync_request example_runtime (gateway 401 body) (Some ()) ''echo'' example_invocation = Some g2"
      "Namespaces_request example_runtime (gateway 401 body) (Some ()) = Some g3"
      "GetFunctions_request example_runtime (gateway 401 body) (Some ()) ''dev'' = Some g4"
      using InvokeSync_request_example InvokeAsync_request_example Namespaces_request_example
        GetFunctions_request_example by metis
    note T = classification_order [where rt = example_runtime and c = "gateway 401 body"
        and cx = "Some ()" and name = "''echo''" and invocation = example_invocation
        and namespace = "''dev''" and ?req1.0 = g1 and ?req2.0 = g2 and ?req3.0 = g3
        and ?req4.0 = g4 and ?res1.0 = "\<lparr>StatusCode = 401, Body = body\<rparr>"
        and ?res2.0 = "\<lparr>StatusCode = 401, Body = body\<rparr>"
        and ?res3.0 = "\<lparr>StatusCode = 401, Body = body\<rparr>"
        and ?res4.0 = "\<lparr>StatusCode = 401, Body = body\<rparr>"]
    show "fst (InvokeSync example_runtime (gateway 401 body) (Some ()) ''echo'' example_invocation)
       = Return [] (Some AuthenticationError)"
      using T g by (simp add: gateway_client)
    show "fst (InvokeAsync example_runtime (gateway 401 body) (Some ()) ''echo'' example_invocation)
       = Return False (Some AuthenticationError)"
      using T g by (simp add: gateway_client)
    show "fst (HasNamespaceSupport example_runtime (gateway 401 body) (Some ()))
       = Return False (Some AuthenticationError)"
      using T g by (simp add: gateway_client)
    show "fst (GetNamespaces example_runtime (gateway 401 body) (Some ()))
       = (if snd (Unmarshal_strings example_runtime body) = None
          then Return (fst (Unmarshal_strings example_runtime body)) None
          else Return [] (Some AuthenticationError))"
      using T g by (simp add: gateway_client)
    show "fst (GetFunctions example_runtime (gateway 401 body) (Some ()) ''dev'')
       = (if snd (Unmarshal_strings example_runtime body) = None
          then Return (fst (Unmarshal_strings example_runtime body)) None
          else Return [] (Some AuthenticationError))"
      using T g by (simp add: gateway_client example_Unmarshal_FunctionStatus)
  qed
  show ?thesis
    using failed
    by (simp add: denied Unmarshal_strings_def example_scan_simps)
qed

text \<open>
  A response with status 401 whose body is a JSON list of strings:
  \<open>GetNamespaces\<close> returns the list with no error, so the handling of 401 does not
  come before the handling of a successful decoding.
\<close>

theorem decodable_401_counterexample:
  "fst (GetNamespaces example_runtime
          (gateway 401 [CHR ''['', CHR 0x22, CHR ''a'', CHR 0x22, CHR '','',
                        CHR 0x22, CHR ''b'', CHR 0x22, CHR '']'']) (Some ()))
     = Return [''a'', ''b''] None"
  by (simp add: GetNamespaces_def Namespaces_request_def NewRequestWithContext_def url_Parse_def
      example_accepts gateway_def gateway_at_def ioutil_ReadAll_def body_stream_def
      Unmarshal_strings_def example_scan_simps)

text \<open>
  C9. Whenever a response was received, every method closes its body
  stream before it returns, whatever the outcome. The stream is read to its end by
  \<open>InvokeSync\<close>, \<open>GetNamespaces\<close> and \<open>GetFunctions\<close> on every status and by
  \<open>HasNamespaceSupport\<close> on status 200; \<open>InvokeAsync\<close>, and \<open>HasNamespaceSupport\<close>
  on every other status, close it without reading it. When the transport fails
  (a cancelled context included) there is no response and no stream to release.
\<close>

theorem body_stream_release:
  "(InvokeSync_request rt c cx name invocation = Some req1 \<and> client c req1 = Inr res1 \<longrightarrow>
      snd (InvokeSync rt c cx name invocation) = Some \<lparr>unread = [], closed = True\<rparr>) \<and>
   (InvokeAsync_request rt c cx name invocation = Some req2 \<and> client c req2 = Inr res2 \<longrightarrow>
      snd (InvokeAsync rt c cx name invocation) = Some \<lparr>unread = Body res2, closed = True\<rparr>) \<and>
   (Namespaces_request rt c cx = Some req3 \<and> client c req3 = Inr res3 \<longrightarrow>
      snd (HasNamespaceSupport rt c cx)
        = Some \<lparr>unread = (if StatusCode res3 = 200 then [] else Body res3), closed = True\<rparr> \<and>
      snd (GetNamespaces rt c cx) = Some \<lparr>unread = [], closed = True\<rparr>) \<and>
   (GetFunctions_request rt c cx namespace = Some req4 \<and> client c req4 = Inr res4 \<longrightarrow>
      snd (GetFunctions rt c cx namespace) = Some \<lparr>unread = [], closed = True\<rparr>) \<and>
   (InvokeSync_request rt c cx name invocation = Some req1 \<and> client c req1 = Inl err1 \<longrightarrow>
      snd (InvokeSync rt c cx name invocation) = None) \<and>
   (InvokeAsync_request rt c cx name invocation = Some req2 \<and> client c req2 = Inl err2 \<longrightarrow>
      snd (InvokeAsync rt c cx name invocation) = None) \<and>
   (Namespaces_request rt c cx = Some req3 \<and> client c req3 = Inl err3 \<longrightarrow>
      snd (HasNamespaceSupport rt c cx) = None \<and> snd (GetNamespaces rt c cx) = None) \<and>
   (GetFunctions_request rt c cx namespace = Some req4 \<and> client c req4 = Inl err4 \<longrightarrow>
      snd (GetFunctions rt c cx namespace) = None)"
proof (intro conjI impI; (elim conjE)?)
  assume "InvokeSync_request rt c cx name invocation = Some req1" "client c req1 = Inl err1"
  then show "snd (InvokeSync rt c cx name invocation) = None"
    by (simp add: InvokeSync_def)
next
  assume "InvokeAsync_request rt c cx name invocation = Some req2" "client c req2 = Inl err2"
  then show "snd (InvokeAsync rt c cx name invocation) = None"
    by (simp add: InvokeAsync_def)
next
  assume "Namespaces_request rt c cx = Some req3" "client c req3 = Inl err3"
  then show "snd (HasNamespaceSupport rt c cx) = None"
    by (simp add: HasNamespaceSupport_def)
next
  assume "Namespaces_request rt c cx = Some req3" "client c req3 = Inl err3"
  then show "snd (GetNamespaces rt c cx) = None"
    by (simp add: GetNamespaces_def)
next
  assume "GetFunctions_request rt c cx namespace = Some req4" "client c req4 = Inl err4"
  then show "snd (GetFunctions rt c cx namespace) = None"
    by (simp add: GetFunctions_def)
qed (simp_all add: InvokeSync_answer InvokeAsync_answer HasNamespaceSupport_answer
    GetNamespaces_answer GetFunctions_answer)

theorem body_stream_release_witness:
  "snd (InvokeSync example_runtime (gateway 404 ''none'') (Some ()) ''echo'' example_invocation)
     = Some \<lparr>unread = [], closed = True\<rparr> \<and>
   snd (InvokeAsync example_runtime (gateway 404 ''none'') (Some ()) ''echo'' example_invocation)
     = Some \<lparr>unread = ''none'', closed = True\<rparr> \<and>
   snd (HasNamespaceSupport example_runtime (gateway 404 ''none'') (Some ()))
     = Some \<lparr>unread = ''none'', closed = True\<rparr> \<and>
   snd (GetNamespaces example_runtime (gateway 404 ''none'') (Some ()))
     = Some \<lparr>unread = [], closed = True\<rparr> \<and>
   snd (GetFunctions example_runtime (gateway 404 ''none'') (Some ()) ''dev'')
     = Some \<lparr>unread = [], closed = True\<rparr> \<and>
   snd (HasNamespaceSupport example_runtime (gateway 200 ''[]'') (Some ()))
     = Some \<lparr>unread = [], closed = True\<rparr> \<and>
   snd (InvokeSync example_runtime unreachable (Some ()) ''echo'' example_invocation) = None \<and>
   snd (InvokeAsync example_runtime unreachable (Some ()) ''echo'' example_invocation) = None \<and>
   snd (HasNamespaceSupport example_runtime unreachable (Some ())) = None \<and>
   snd (GetNamespaces example_runtime unreachable (Some ())) = None \<and>
   snd (GetFunctions example_runtime unreachable (Some ()) ''dev'') = None"
proof -
  obtain u1 u2 u3 u4 where u:
    "InvokeSync_request example_runtime unreachable (Some ()) ''echo'' example_invocation = Some u1"
    "InvokeAsync_request example_runtime unreachable (Some ()) ''echo'' example_invocation = Some u2"
    "Namespaces_request example_runtime unreachable (Some ()) = Some u3"
    "GetFunctions_request example_runtime unreachable (Some ()) ''dev'' = Some u4"
    using unreachable_requests by blast
  have failed:
    "snd (InvokeSync example_runtime unreachable (Some ()) ''echo'' example_invocation) = None"
    "snd (InvokeAsync example_runtime unreachable (Some ()) ''echo'' example_invocation) = None"
    "snd (HasNamespaceSupport example_runtime unreachable (Some ())) = None"
    "snd (GetNamespaces example_runtime unreachable (Some ())) = None"
    "snd (GetFunctions example_runtime unreachable (Some ()) ''dev'') = None"
    using body_stream_release [where rt = example_runtime and c = unreachable and cx = "Some ()"
        and name = "''echo''" and invocation = example_invocation and namespace = "''dev''"
        and ?req1.0 = u1 and ?req2.0 = u2 and ?req3.0 = u3 and ?req4.0 = u4
        and ?err1.0 = "errors_New ''connection refused''"
        and ?err2.0 = "errors_New ''connection refused''"
        and ?err3.0 = "errors_New ''connection refused''"
        and ?err4.0 = "errors_New ''connection refused''"] u
    by (simp_all add: unreachable_client)
  have answered:
    "snd (InvokeSync example_runtime (gateway status body) (Some ()) ''echo'' example_invocation)
       = Some \<lparr>unread = [], closed = True\<rparr>"
    "snd (InvokeAsync example_runtime (gateway status body) (Some ()) ''echo'' example_invocation)
       = Some \<lparr>unread = body, closed = True\<rparr>"
    "snd (HasNamespaceSupport example_runtime (gateway status body) (Some ()))
       = Some \<lparr>unread = (if status = 200 then [] else body), closed = True\<rparr>"
    "snd (GetNamespaces example_runtime (gateway status body) (Some ()))
       = Some \<lparr>unread = [], closed = True\<rparr>"
    "snd (GetFunctions example_runtime (gateway status body) (Some ()) ''dev'')
       = Some \<lparr>unread = [], closed = True\<rparr>"
    for status body
  proof -
    obtain g1 g2 g3 g4 where g:
      "InvokeSync_request example_runtime (gateway status body) (Some ()) ''echo'' example_invocation = Some g1"
      "InvokeAsync_request example_runtime (gateway status body) (Some ()) ''echo'' example_invocation = Some g2"
      "Namespaces_request example_runtime (gateway status body) (Some ()) = Some g3"
      "GetFunctions_request example_runtime (gateway status body) (Some ()) ''dev'' = Some g4"
      using InvokeSync_request_example InvokeAsync_request_example Namespaces_request_example
        GetFunctions_request_example by metis
    note T = body_stream_release [where rt = example_runtime and c = "gateway status body"
        and cx = "Some ()" and name = "''echo''" and invocation = example_invocation
        and namespace = "''dev''" and ?req1.0 = g1 and ?req2.0 = g2 and ?req3.0 = g3
        and ?req4.0 = g4 and ?res1.0 = "\<lparr>StatusCode = status, Body = body\<rparr>"
        and ?res2.0 = "\<lparr>StatusCode = status, Body = body\<rparr>"
        and ?res3.0 = "\<lparr>StatusCode = status, Body = body\<rparr>"
        and ?res4.0 = "\<lparr>StatusCode = status, Body = body\<rparr>"]
    show "snd (InvokeSync example_runtime (gateway status body) (Some ()) ''echo'' example_invocation)
       = Some \<lparr>unread = [], closed = True\<rparr>"
      using T g by (simp add: gateway_client)
    show "snd (InvokeAsync example_runtime (gateway status body) (Some ()) ''echo'' example_invocation)
       = Some \<lparr>unread = body, closed = True\<rparr>"
      using T g by (simp add: gateway_client)
    show "snd (HasNamespaceSupport example_runtime (gateway status body) (Some ()))
       = Some \<lparr>unread = (if status = 200 then [] else body), closed = True\<rparr>"
      using T g by (simp add: gateway_client)
    show "snd (GetNamespaces example_runtime (gateway status body) (Some ()))
       = Some \<lparr>unread = [], closed = True\<rparr>"
      using T g by (simp add: gateway_client)
    show "snd (GetFunctions example_runtime (gateway status body) (Some ()) ''dev'')
       = Some \<lparr>unread = [], closed = True\<rparr>"
      using T g by (simp add: gateway_client)
  qed
  show ?thesis using failed by (simp add: answered)
qed

text \<open>
  \<open>InvokeAsync\<close> on an accepted request, and \<open>HasNamespaceSupport\<close> on status 401,
  close a body that still holds all its bytes: the stream is not drained.
\<close>

theorem InvokeAsync_undrained_counterexample:
  "snd (InvokeAsync example_runtime (gateway 202 ''queued'') (Some ()) ''echo'' example_invocation)
     = Some \<lparr>unread = ''queued'', closed = True\<rparr> \<and>
   snd (HasNamespaceSupport example_runtime (gateway 401 ''denied'') (Some ()))
     = Some \<lparr>unread = ''denied'', closed = True\<rparr>"
  by (simp add: InvokeAsync_def InvokeAsync_request_def HasNamespaceSupport_def
      Namespaces_request_def NewRequestWithContext_def url_Parse_def
      example_accepts gateway_def gateway_at_def body_stream_def Close_def)

text \<open>
  C10. Every method drops the error of \<^verbatim>\<open>NewRequestWithContext\<close> and uses the request
  pointer. The request is nil exactly when the context is nil or \<^verbatim>\<open>url.Parse\<close> rejects
  the URL made of the base URL and, for the two invoke methods, the function name;
  and each method panics on the nil pointer, returning no error of any class,
  exactly when its request is nil.
\<close>

theorem nil_request_panics:
  "(NewRequestWithContext rt cx ''POST'' (url c @ ''/function/'' @ name) (Message invocation) = None
      \<longleftrightarrow> InvokeSync rt c cx name invocation = (Panic, None)) \<and>
   (NewRequestWithContext rt cx ''POST'' (url c @ ''/async-function/'' @ name) (Message invocation)
      = None \<longleftrightarrow> InvokeAsync rt c cx name invocation = (Panic, None)) \<and>
   (NewRequestWithContext rt cx ''GET'' (url c @ ''/system/namespaces'') None = None
      \<longleftrightarrow> HasNamespaceSupport rt c cx = (Panic, None)) \<and>
   (NewRequestWithContext rt cx ''GET'' (url c @ ''/system/namespaces'') None = None
      \<longleftrightarrow> GetNamespaces rt c cx = (Panic, None)) \<and>
   (NewRequestWithContext rt cx ''GET'' (url c @ ''/system/functions'') None = None
      \<longleftrightarrow> GetFunctions rt c cx namespace = (Panic, None)) \<and>
   (NewRequestWithContext rt cx meth rawURL body = None
      \<longleftrightarrow> cx = None \<or> \<not> url_accepts rt rawURL)"
proof (intro conjI)
  show "NewRequestWithContext rt cx ''POST'' (url c @ ''/function/'' @ name) (Message invocation) = None
      \<longleftrightarrow> InvokeSync rt c cx name invocation = (Panic, None)"
    by (auto simp: InvokeSync_def InvokeSync_request_def ioutil_ReadAll_def
        split: option.splits sum.splits)
  show "NewRequestWithContext rt cx ''POST'' (url c @ ''/async-function/'' @ name) (Message invocation)
      = None \<longleftrightarrow> InvokeAsync rt c cx name invocation = (Panic, None)"
    by (auto simp: InvokeAsync_def InvokeAsync_request_def split: option.splits sum.splits)
  show "NewRequestWithContext rt cx ''GET'' (url c @ ''/system/namespaces'') None = None
      \<longleftrightarrow> HasNamespaceSupport rt c cx = (Panic, None)"
    by (auto simp: HasNamespaceSupport_def Namespaces_request_def ioutil_ReadAll_def
        split: option.splits sum.splits prod.splits)
  show "NewRequestWithContext rt cx ''GET'' (url c @ ''/system/namespaces'') None = None
      \<longleftrightarrow> GetNamespaces rt c cx = (Panic, None)"
    by (auto simp: GetNamespaces_def Namespaces_request_def ioutil_ReadAll_def
        split: option.splits sum.splits prod.splits)
  show "NewRequestWithContext rt cx ''GET'' (url c @ ''/system/functions'') None = None
      \<longleftrightarrow> GetFunctions rt c cx namespace = (Panic, None)"
    by (auto simp: GetFunctions_def GetFunctions_request_def ioutil_ReadAll_def Let_def
        split: option.splits sum.splits prod.splits)
  show "NewRequestWithContext rt cx meth rawURL body = None
      \<longleftrightarrow> cx = None \<or> \<not> url_accepts rt rawURL"
    by (rule NewRequestWithContext_None)
qed

theorem nil_request_panics_witness:
  "InvokeSync example_runtime (gateway 200 []) (Some ()) [CHR ''a'', CHR 0x0A] example_invocation
     = (Panic, None) \<and>
   InvokeAsync example_runtime (gateway 202 []) (Some ()) [CHR ''a'', CHR 0x0A] example_invocation
     = (Panic, None) \<and>
   HasNamespaceSupport example_runtime (gateway_at [CHR 0x0A] 200 ''[]'') (Some ()) = (Panic, None) \<and>
   GetNamespaces example_runtime (gateway_at [CHR 0x0A] 200 ''[]'') (Some ()) = (Panic, None) \<and>
   GetFunctions example_runtime (gateway_at [CHR 0x0A] 200 ''[]'') (Some ()) ''dev'' = (Panic, None) \<and>
   InvokeSync example_runtime (gateway 200 []) None ''echo'' example_invocation = (Panic, None) \<and>
   InvokeSync example_runtime (gateway 200 []) (Some ()) ''echo'' example_invocation
     \<noteq> (Panic, None)"
proof -
  have fails: "NewRequestWithContext example_runtime cx meth rawURL body = None"
    if "cx = None \<or> CHR 0x0A \<in> set rawURL" for cx :: "unit option" and meth rawURL body
    using nil_request_panics [of example_runtime cx _ _ _ _ meth rawURL body] that
    by (auto simp: example_accepts)
  have builds: "NewRequestWithContext example_runtime (Some ()) meth rawURL body \<noteq> None"
    if "CHR 0x0A \<notin> set rawURL" for meth rawURL body
    using nil_request_panics [of example_runtime "Some ()" _ _ _ _ meth rawURL body] that
    by (auto simp: example_accepts)
  show ?thesis
    using nil_request_panics [of example_runtime "Some ()" "gateway 200 []" "[CHR ''a'', CHR 0x0A]"
        example_invocation]
      nil_request_panics [of example_runtime "Some ()" "gateway 202 []" "[CHR ''a'', CHR 0x0A]"
        example_invocation]
      nil_request_panics [of example_runtime "Some ()" "gateway_at [CHR 0x0A] 200 ''[]''" _ _ "''dev''"]
      nil_request_panics [of example_runtime None "gateway 200 []" "''echo''" example_invocation]
      nil_request_panics [of example_runtime "Some ()" "gateway 200 []" "''echo''" example_invocation]
    by (simp add: fails builds gateway_def gateway_at_def)
qed

end
